theory Spec2Isabelle
  imports Main
begin

section \<open>Icon categories\<close>

text \<open>
  The script imports seventeen node classes from the diagramming library. The module each
  one is imported from gives its provider (\<open>diagrams.onprem\<close> or \<open>diagrams.gcp\<close>) and its
  resource type (\<open>compute\<close>, \<open>database\<close>, \<open>network\<close>, ...).
\<close>

datatype category =
    ComputeEngine | GKE | Run
  | SQL | Memorystore
  | VPC | LoadBalancing | DNS | FirewallRules
  | GCS | Filestore
  | Iam | KMS
  | BigQuery
  | ContainerRegistry
  | Users
  | Internet

datatype provider = OnPrem | GCP

datatype resource_type =
  Compute | Database | Network | Storage | Security | Analytics | DevTools | Client

fun provider_of :: "category \<Rightarrow> provider" where
  "provider_of Users = OnPrem"
| "provider_of Internet = OnPrem"
| "provider_of _ = GCP"

fun resource_type_of :: "category \<Rightarrow> resource_type" where
  "resource_type_of ComputeEngine = Compute"
| "resource_type_of GKE = Compute"
| "resource_type_of Run = Compute"
| "resource_type_of SQL = Database"
| "resource_type_of Memorystore = Database"
| "resource_type_of VPC = Network"
| "resource_type_of LoadBalancing = Network"
| "resource_type_of DNS = Network"
| "resource_type_of FirewallRules = Network"
| "resource_type_of GCS = Storage"
| "resource_type_of Filestore = Storage"
| "resource_type_of Iam = Security"
| "resource_type_of KMS = Security"
| "resource_type_of BigQuery = Analytics"
| "resource_type_of ContainerRegistry = DevTools"
| "resource_type_of Users = Client"
| "resource_type_of Internet = Network"

section \<open>Nodes, clusters, edges\<close>

text \<open>
  A node is identified by the Python variable it is bound to; it carries the class it was
  built from and the display label passed to the constructor. An edge made by the
  \<open>>>\<close> operator carries no label and no style; the fields exist because the library's
  \<open>Edge\<close> class (imported, never used by the script) allows them.
\<close>

type_synonym ident = string

record node =
  node_id :: ident
  node_category :: category
  node_label :: string

record edge =
  src :: ident
  dst :: ident
  edge_label :: "string option"
  edge_style :: "string option"

datatype item = INode node | ICluster string "item list"

datatype error = NameError ident | ValueError string | RenderError string

record builder =
  items :: "item list"
  edges :: "edge list"
  names :: "ident list"

abbreviation Node :: "ident \<Rightarrow> category \<Rightarrow> string \<Rightarrow> item" where
  "Node x c l \<equiv> INode \<lparr>node_id = x, node_category = c, node_label = l\<rparr>"

abbreviation plain_edge :: "ident \<Rightarrow> ident \<Rightarrow> edge" where
  "plain_edge a c \<equiv> \<lparr>src = a, dst = c, edge_label = None, edge_style = None\<rparr>"

definition empty_builder :: builder where
  "empty_builder = \<lparr>items = [], edges = [], names = []\<rparr>"

text \<open>
  A statement returns the builder (\<open>Inr\<close>) or raises (\<open>Inl\<close>); what had been built
  when the exception was raised is kept, since the exit handlers of the enclosing
  \<open>with\<close> blocks still run on it.
\<close>

type_synonym stmt = "builder \<Rightarrow> error \<times> builder + builder"

text \<open>A block of statements runs in order and stops at the first exception.\<close>

fun exec :: "stmt list \<Rightarrow> builder \<Rightarrow> error \<times> builder + builder" where
  "exec [] b = Inr b"
| "exec (s # ss) b = (case s b of Inl x \<Rightarrow> Inl x | Inr b' \<Rightarrow> exec ss b')"

text \<open>\<open>x = C("label")\<close>: a new node in the innermost open cluster, bound to \<open>x\<close>.\<close>

definition node :: "ident \<Rightarrow> category \<Rightarrow> string \<Rightarrow> stmt" where
  "node x c l b =
     Inr (b\<lparr>items := items b @ [Node x c l], names := names b @ [x]\<rparr>)"

text \<open>
  \<open>with Cluster(l): body\<close>: the body's nodes and clusters are collected under a new
  cluster; a \<open>with\<close> block opens no scope, so the names bound inside stay visible.
  The cluster is attached to its parent when the block is left, also when it is left by
  an exception (the exit handler does not look at the exception and does not swallow it).
\<close>

definition Cluster :: "string \<Rightarrow> stmt list \<Rightarrow> stmt" where
  "Cluster l body b =
     (case exec body (b\<lparr>items := []\<rparr>) of
        Inl (e, b') \<Rightarrow> Inl (e, b'\<lparr>items := items b @ [ICluster l (items b')]\<rparr>)
      | Inr b' \<Rightarrow> Inr (b'\<lparr>items := items b @ [ICluster l (items b')]\<rparr>))"

text \<open>
  \<open>a >> c\<close>: a plain directed edge. Python evaluates the left operand first; a name
  that is not bound raises NameError.
\<close>

definition rshift :: "ident \<Rightarrow> ident \<Rightarrow> stmt" where
  "rshift a c b =
     (if a \<notin> set (names b) then Inl (NameError a, b)
      else if c \<notin> set (names b) then Inl (NameError c, b)
      else Inr (b\<lparr>edges := edges b @ [plain_edge a c]\<rparr>))"

section \<open>Diagrams\<close>

record diagram =
  title :: string
  filename :: string
  show_flag :: bool
  direction :: string
  ditems :: "item list"
  dedges :: "edge list"

subsection \<open>The constructor's checks\<close>

text \<open>
  The library's \<open>Diagram\<close> constructor, for the four arguments the script passes. The
  direction is valid when its upper-case form is one of \<open>TB\<close>, \<open>BT\<close>, \<open>LR\<close>, \<open>RL\<close>;
  an invalid one raises ValueError. An empty \<open>filename\<close> is replaced: by
  \<open>diagrams_image\<close> when the title is empty too, else by the title's words joined with
  \<open>_\<close>, in lower case. Characters are bytes here; case and white space are those of
  ASCII.
\<close>

definition upper_char :: "char \<Rightarrow> char" where
  "upper_char c =
     (if 97 \<le> (of_char c :: nat) \<and> (of_char c :: nat) \<le> 122
      then char_of ((of_char c :: nat) - 32) else c)"

definition lower_char :: "char \<Rightarrow> char" where
  "lower_char c =
     (if 65 \<le> (of_char c :: nat) \<and> (of_char c :: nat) \<le> 90
      then char_of ((of_char c :: nat) + 32) else c)"

definition is_space :: "char \<Rightarrow> bool" where
  "is_space c =
     ((9 \<le> (of_char c :: nat) \<and> (of_char c :: nat) \<le> 13) \<or>
      (28 \<le> (of_char c :: nat) \<and> (of_char c :: nat) \<le> 32))"

text \<open>\<open>str.split()\<close>: the maximal runs of characters that are not white space.\<close>

fun split_words :: "string \<Rightarrow> string \<Rightarrow> string list" where
  "split_words acc [] = (if acc = [] then [] else [acc])"
| "split_words acc (c # cs) =
     (if is_space c then (if acc = [] then split_words [] cs else acc # split_words [] cs)
      else split_words (acc @ [c]) cs)"

fun join_with :: "string \<Rightarrow> string list \<Rightarrow> string" where
  "join_with sep [] = []"
| "join_with sep [x] = x"
| "join_with sep (x # y # ys) = x @ sep @ join_with sep (y # ys)"

definition valid_direction :: "string \<Rightarrow> bool" where
  "valid_direction d = (map upper_char d \<in> set [''TB'', ''BT'', ''LR'', ''RL''])"

definition diagram_filename :: "string \<Rightarrow> string \<Rightarrow> string" where
  "diagram_filename t f =
     (if f \<noteq> [] then f
      else if t = [] then ''diagrams_image''
      else map lower_char (join_with ''_'' (split_words [] t)))"

definition describe :: "string \<Rightarrow> string \<Rightarrow> bool \<Rightarrow> string \<Rightarrow> builder \<Rightarrow> diagram" where
  "describe t f s d b =
     \<lparr>title = t, filename = diagram_filename t f, show_flag = s, direction = d,
      ditems = items b, dedges = edges b\<rparr>"

text \<open>
  \<open>with Diagram(title, filename=f, show=s, direction=d): body\<close>, up to the point where the
  block is left. \<open>Inr g\<close>: the body ran to its end and built the graph \<open>g\<close> in a fresh
  diagram. \<open>Inl (Inr (e, g))\<close>: the body raised \<open>e\<close> when it had built \<open>g\<close>.
  \<open>Inl (Inl e)\<close>: the constructor raised \<open>e\<close> and the block was never entered.
\<close>

definition Diagram ::
  "string \<Rightarrow> string \<Rightarrow> bool \<Rightarrow> string \<Rightarrow> stmt list \<Rightarrow> (error + error \<times> diagram) + diagram" where
  "Diagram t f s d body =
     (if valid_direction d
      then (case exec body empty_builder of
              Inl (e, b) \<Rightarrow> Inl (Inr (e, describe t f s d b))
            | Inr b \<Rightarrow> Inr (describe t f s d b))
      else Inl (Inl (ValueError ([CHR 0x22] @ d @ [CHR 0x22] @ '' is not a valid direction''))))"

subsection \<open>Reading a graph description\<close>

fun nodes_of :: "item \<Rightarrow> node list" where
  "nodes_of (INode n) = [n]"
| "nodes_of (ICluster l its) = concat (map nodes_of its)"

definition all_nodes :: "item list \<Rightarrow> node list" where
  "all_nodes its = concat (map nodes_of its)"

fun top_nodes :: "item list \<Rightarrow> node list" where
  "top_nodes [] = []"
| "top_nodes (INode n # its) = n # top_nodes its"
| "top_nodes (ICluster l sub # its) = top_nodes its"

fun sub_clusters :: "item list \<Rightarrow> (string \<times> item list) list" where
  "sub_clusters [] = []"
| "sub_clusters (INode n # its) = sub_clusters its"
| "sub_clusters (ICluster l sub # its) = (l, sub) # sub_clusters its"

definition cluster_named :: "string \<Rightarrow> item list \<Rightarrow> item list option" where
  "cluster_named l its = map_of (sub_clusters its) l"

definition node_ids :: "diagram \<Rightarrow> ident list" where
  "node_ids d = map node_id (all_nodes (ditems d))"

definition external :: "node \<Rightarrow> bool" where
  "external n = (provider_of (node_category n) = OnPrem)"

text \<open>
  What is left of a cluster's content when the identifiers are dropped: the tree of
  clusters with their labels, and each node's category and display label.
\<close>

datatype shape = SNode category string | SCluster string "shape list"

fun anonymous :: "item \<Rightarrow> shape" where
  "anonymous (INode n) = SNode (node_category n) (node_label n)"
| "anonymous (ICluster l its) = SCluster l (map anonymous its)"

text \<open>The edges with both ends inside a cluster, in declaration order.\<close>

definition intra_edges :: "item list \<Rightarrow> edge list \<Rightarrow> edge list" where
  "intra_edges its es =
     filter (\<lambda>e. src e \<in> set (map node_id (all_nodes its)) \<and>
                 dst e \<in> set (map node_id (all_nodes its))) es"

definition category_of :: "item list \<Rightarrow> ident \<Rightarrow> category option" where
  "category_of its = map_of (map (\<lambda>n. (node_id n, node_category n)) (all_nodes its))"

text \<open>The shape of an edge: the categories of its two ends.\<close>

definition edge_shape :: "item list \<Rightarrow> edge \<Rightarrow> category option \<times> category option" where
  "edge_shape its e = (category_of its (src e), category_of its (dst e))"

text \<open>The k-th node of one cluster renamed to the k-th node of the other.\<close>

definition renaming :: "item list \<Rightarrow> item list \<Rightarrow> ident \<Rightarrow> ident option" where
  "renaming p s = map_of (zip (map node_id (all_nodes p)) (map node_id (all_nodes s)))"

section \<open>The comprehensive diagram\<close>

definition gcp_architecture_body :: "stmt list" where
  "gcp_architecture_body =
    [ node ''users'' Users ''Users'',
      node ''internet'' Internet ''Internet'',
      Cluster ''Global Resources''
        [ node ''dns'' DNS ''Cloud DNS'',
          node ''lb_global'' LoadBalancing ''Global Load Balancer'',
          node ''iam'' Iam ''IAM & Service Accounts'',
          node ''kms'' KMS ''Cloud KMS'',
          node ''monitoring'' BigQuery ''Cloud Monitoring'',
          node ''registry'' ContainerRegistry ''Artifact Registry'' ],
      Cluster ''Primary Region (us-central1)''
        [ Cluster ''VPC Network''
            [ node ''vpc_primary'' VPC ''VPC'',
              Cluster ''Subnets''
                [ node ''web_subnet'' VPC ''Web Subnet'',
                  node ''app_subnet'' VPC ''App Subnet'',
                  node ''db_subnet'' VPC ''DB Subnet'',
                  node ''gke_subnet'' VPC ''GKE Subnet'' ],
              node ''firewall'' FirewallRules ''Firewall Rules'',
              Cluster ''Compute Layer''
                [ node ''gke_primary'' GKE ''GKE Cluster'',
                  node ''cloud_run_primary'' Run ''Cloud Run'',
                  node ''compute_primary'' ComputeEngine ''Compute Engine'' ],
              Cluster ''Database Layer''
                [ node ''sql_primary'' SQL ''Cloud SQL\<newline>(PostgreSQL)'',
                  node ''redis_primary'' Memorystore ''Redis Cache'' ],
              Cluster ''Storage Layer''
                [ node ''storage_primary'' GCS ''Cloud Storage'',
                  node ''filestore_primary'' Filestore ''Filestore'' ] ] ],
      Cluster ''Secondary Region (us-east1)''
        [ Cluster ''VPC Network''
            [ node ''vpc_secondary'' VPC ''VPC'',
              Cluster ''Subnets''
                [ node ''web_subnet_2'' VPC ''Web Subnet'',
                  node ''app_subnet_2'' VPC ''App Subnet'',
                  node ''db_subnet_2'' VPC ''DB Subnet'',
                  node ''gke_subnet_2'' VPC ''GKE Subnet'' ],
              node ''firewall_2'' FirewallRules ''Firewall Rules'',
              Cluster ''Compute Layer''
                [ node ''gke_secondary'' GKE ''GKE Cluster'',
                  node ''cloud_run_secondary'' Run ''Cloud Run'',
                  node ''compute_secondary'' ComputeEngine ''Compute Engine'' ],
              Cluster ''Database Layer''
                [ node ''sql_secondary'' SQL ''Cloud SQL\<newline>(PostgreSQL)'',
                  node ''redis_secondary'' Memorystore ''Redis Cache'' ],
              Cluster ''Storage Layer''
                [ node ''storage_secondary'' GCS ''Cloud Storage'',
                  node ''filestore_secondary'' Filestore ''Filestore'' ] ] ],
      Cluster ''Cross-Region Connectivity''
        [ node ''vpc_peering'' VPC ''VPC Peering'',
          node ''vpn_tunnel'' VPC ''VPN Tunnel'' ],
      Cluster ''Security & Compliance''
        [ node ''vpc_sc'' VPC ''VPC Service Controls'',
          node ''binary_auth'' Iam ''Binary Authorization'',
          node ''workload_identity'' Iam ''Workload Identity'' ],
      rshift ''users'' ''internet'',
      rshift ''internet'' ''dns'',
      rshift ''dns'' ''lb_global'',
      rshift ''lb_global'' ''gke_primary'',
      rshift ''lb_global'' ''gke_secondary'',
      rshift ''lb_global'' ''cloud_run_primary'',
      rshift ''lb_global'' ''cloud_run_secondary'',
      rshift ''gke_primary'' ''sql_primary'',
      rshift ''gke_primary'' ''redis_primary'',
      rshift ''gke_primary'' ''storage_primary'',
      rshift ''cloud_run_primary'' ''sql_primary'',
      rshift ''cloud_run_primary'' ''redis_primary'',
      rshift ''compute_primary'' ''sql_primary'',
      rshift ''compute_primary'' ''storage_primary'',
      rshift ''gke_secondary'' ''sql_secondary'',
      rshift ''gke_secondary'' ''redis_secondary'',
      rshift ''gke_secondary'' ''storage_secondary'',
      rshift ''cloud_run_secondary'' ''sql_secondary'',
      rshift ''cloud_run_secondary'' ''redis_secondary'',
      rshift ''compute_secondary'' ''sql_secondary'',
      rshift ''compute_secondary'' ''storage_secondary'',
      rshift ''vpc_primary'' ''vpc_peering'',
      rshift ''vpc_secondary'' ''vpc_peering'',
      rshift ''vpc_primary'' ''vpn_tunnel'',
      rshift ''vpc_secondary'' ''vpn_tunnel'',
      rshift ''sql_primary'' ''sql_secondary'',
      rshift ''iam'' ''gke_primary'',
      rshift ''iam'' ''gke_secondary'',
      rshift ''iam'' ''cloud_run_primary'',
      rshift ''iam'' ''cloud_run_secondary'',
      rshift ''kms'' ''sql_primary'',
      rshift ''kms'' ''sql_secondary'',
      rshift ''kms'' ''storage_primary'',
      rshift ''kms'' ''storage_secondary'',
      rshift ''monitoring'' ''gke_primary'',
      rshift ''monitoring'' ''gke_secondary'',
      rshift ''monitoring'' ''sql_primary'',
      rshift ''monitoring'' ''sql_secondary'',
      rshift ''registry'' ''gke_primary'',
      rshift ''registry'' ''gke_secondary'',
      rshift ''registry'' ''cloud_run_primary'',
      rshift ''registry'' ''cloud_run_secondary'',
      rshift ''vpc_sc'' ''vpc_primary'',
      rshift ''vpc_sc'' ''vpc_secondary'',
      rshift ''binary_auth'' ''gke_primary'',
      rshift ''binary_auth'' ''gke_secondary'',
      rshift ''workload_identity'' ''gke_primary'',
      rshift ''workload_identity'' ''gke_secondary'' ]"

definition gcp_architecture_graph :: "(error + error \<times> diagram) + diagram" where
  "gcp_architecture_graph =
     Diagram ''Terraform GCP Multi-Region Infrastructure'' ''gcp_architecture_diagram'' False ''TB''
       gcp_architecture_body"

section \<open>The simplified diagram\<close>

definition simplified_body :: "stmt list" where
  "simplified_body =
    [ node ''users'' Users ''Users'',
      node ''internet'' Internet ''Internet'',
      Cluster ''Global Services''
        [ node ''dns'' DNS ''Cloud DNS'',
          node ''lb'' LoadBalancing ''Global Load Balancer'',
          node ''iam'' Iam ''IAM & Security'',
          node ''monitoring'' BigQuery ''Monitoring & Logging'' ],
      Cluster ''Multi-Region Deployment''
        [ Cluster ''Primary Region\<newline>(us-central1)''
            [ node ''gke_primary'' GKE ''GKE Cluster'',
              node ''sql_primary'' SQL ''Cloud SQL'',
              node ''storage_primary'' GCS ''Cloud Storage'' ],
          Cluster ''Secondary Region\<newline>(us-east1)''
            [ node ''gke_secondary'' GKE ''GKE Cluster'',
              node ''sql_secondary'' SQL ''Cloud SQL'',
              node ''storage_secondary'' GCS ''Cloud Storage'' ] ],
      node ''vpc_peering'' VPC ''VPC Peering'',
      rshift ''users'' ''internet'',
      rshift ''internet'' ''dns'',
      rshift ''dns'' ''lb'',
      rshift ''lb'' ''gke_primary'',
      rshift ''lb'' ''gke_secondary'',
      rshift ''gke_primary'' ''sql_primary'',
      rshift ''gke_primary'' ''storage_primary'',
      rshift ''gke_secondary'' ''sql_secondary'',
      rshift ''gke_secondary'' ''storage_secondary'',
      rshift ''sql_primary'' ''sql_secondary'',
      rshift ''gke_primary'' ''vpc_peering'',
      rshift ''gke_secondary'' ''vpc_peering'',
      rshift ''iam'' ''gke_primary'',
      rshift ''iam'' ''gke_secondary'',
      rshift ''monitoring'' ''gke_primary'',
      rshift ''monitoring'' ''gke_secondary'' ]"

definition simplified_graph :: "(error + error \<times> diagram) + diagram" where
  "simplified_graph =
     Diagram ''GCP Infrastructure Overview'' ''gcp_simplified_diagram'' False ''TB''
       simplified_body"

section \<open>Rendering and the script\<close>

text \<open>
  Leaving a \<open>with Diagram(...)\<close> block runs the diagram's exit handler. It saves the
  graph's DOT source in the file named by \<open>filename\<close>, replacing what was there, and runs
  the external layout engine on it; the engine may fail and is a parameter of the model.
  When the engine succeeds the image is written beside the source, with the library's
  default format \<open>png\<close> as extension (the names the script prints), and the source file is
  removed. When it fails the exception leaves the handler at once and the source file
  stays behind. The world keeps what was printed, the files on disk, and the graphs
  handed to the engine, in order.
\<close>

datatype 'img content = DotSource diagram | PngImage 'img

record 'img world =
  stdout :: "string list"
  files :: "string \<rightharpoonup> 'img content"
  requests :: "diagram list"

type_synonym 'img engine = "diagram \<Rightarrow> error + 'img"

text \<open>\<open>Inl (e, w)\<close>: exception \<open>e\<close> left the call, in world \<open>w\<close>; \<open>Inr w\<close>: the call returned.\<close>

type_synonym 'img result = "error \<times> 'img world + 'img world"

definition world_of :: "'img result \<Rightarrow> 'img world" where
  "world_of r = (case r of Inl (e, w) \<Rightarrow> w | Inr w \<Rightarrow> w)"

definition render :: "'img engine \<Rightarrow> diagram \<Rightarrow> 'img world \<Rightarrow> 'img result" where
  "render eng d w =
     (case eng d of
        Inl e \<Rightarrow>
          Inl (e, w\<lparr>files := (files w)(filename d \<mapsto> DotSource d),
                     requests := requests w @ [d]\<rparr>)
      | Inr img \<Rightarrow>
          Inr (w\<lparr>files := ((files w)(filename d @ ''.png'' \<mapsto> PngImage img))(filename d := None),
                  requests := requests w @ [d]\<rparr>))"

text \<open>
  A whole \<open>with Diagram(...)\<close> statement. When the constructor raises, nothing else
  happens. When the body raises, the exit handler still runs on the graph built so far:
  an exception of the engine replaces the body's, otherwise the body's exception goes on
  once the handler is done. Neither function of the script has a \<open>try\<close>: an exception
  leaves the function.
\<close>

definition build ::
  "'img engine \<Rightarrow> (error + error \<times> diagram) + diagram \<Rightarrow> 'img world \<Rightarrow> 'img result" where
  "build eng g w =
     (case g of
        Inl (Inl e) \<Rightarrow> Inl (e, w)
      | Inl (Inr (e, d)) \<Rightarrow>
          (case render eng d w of Inl x \<Rightarrow> Inl x | Inr w' \<Rightarrow> Inl (e, w'))
      | Inr d \<Rightarrow> render eng d w)"

definition create_gcp_architecture_diagram :: "'img engine \<Rightarrow> 'img world \<Rightarrow> 'img result" where
  "create_gcp_architecture_diagram eng = build eng gcp_architecture_graph"

definition create_simplified_architecture_diagram :: "'img engine \<Rightarrow> 'img world \<Rightarrow> 'img result" where
  "create_simplified_architecture_diagram eng = build eng simplified_graph"

definition py_print :: "string \<Rightarrow> 'img world \<Rightarrow> 'img result" where
  "py_print s w = Inr (w\<lparr>stdout := stdout w @ [s]\<rparr>)"

fun run_all :: "('img world \<Rightarrow> 'img result) list \<Rightarrow> 'img world \<Rightarrow> 'img result" where
  "run_all [] w = Inr w"
| "run_all (c # cs) w = (case c w of Inl x \<Rightarrow> Inl x | Inr w' \<Rightarrow> run_all cs w')"

text \<open>
  The driver block. Four of its messages start with a pictograph; the bytes of the source
  file are kept.
\<close>

definition main :: "'img engine \<Rightarrow> 'img world \<Rightarrow> 'img result" where
  "main eng =
     run_all
       [ py_print ''Generating GCP architecture diagrams...'',
         py_print ''Creating comprehensive architecture diagram...'',
         create_gcp_architecture_diagram eng,
         py_print ([CHR 0xC3, CHR 0xA2, CHR 0xC5, CHR 0x93, CHR 0xE2, CHR 0x80, CHR 0xA6] @
                   '' Comprehensive diagram saved as 'gcp_architecture_diagram.png'' @ [CHR 0x27]),
         py_print ''Creating simplified architecture diagram...'',
         create_simplified_architecture_diagram eng,
         py_print ([CHR 0xC3, CHR 0xA2, CHR 0xC5, CHR 0x93, CHR 0xE2, CHR 0x80, CHR 0xA6] @
                   '' Simplified diagram saved as 'gcp_simplified_diagram.png'' @ [CHR 0x27]),
         py_print ([CHR 0x0A, CHR 0xC4, CHR 0x9F, CHR 0xC5, CHR 0xB8, CHR 0xE2, CHR 0x80, CHR 0xB0] @
                   '' Architecture diagrams generated successfully!''),
         py_print ([CHR 0xC4, CHR 0x9F, CHR 0xC5, CHR 0xB8, CHR 0xE2, CHR 0x80, CHR 0x9C] @
                   '' Files created:''),
         py_print ''   - gcp_architecture_diagram.png (comprehensive view)'',
         py_print ''   - gcp_simplified_diagram.png (high-level overview)'',
         py_print ([CHR 0x0A, CHR 0xC4, CHR 0x9F, CHR 0xC5, CHR 0xB8, CHR 0xE2, CHR 0x80, CHR 0x99,
                    CHR 0xC2, CHR 0xA1] @
                   '' You can now include these diagrams in your documentation!'') ]"

section \<open>The two graph descriptions, evaluated\<close>

text \<open>
  The values the two bodies evaluate to, written out. Lemmas \<open>gcp_architecture_graph_eval\<close>
  and \<open>simplified_graph_eval\<close> below prove that they are what the builds return.
\<close>

definition gcp_architecture_description :: diagram where
  "gcp_architecture_description =
     \<lparr>title = ''Terraform GCP Multi-Region Infrastructure'',
      filename = ''gcp_architecture_diagram'',
      show_flag = False,
      direction = ''TB'',
      ditems =
           [ Node ''users'' Users ''Users'',
             Node ''internet'' Internet ''Internet'',
             ICluster ''Global Resources''
               [ Node ''dns'' DNS ''Cloud DNS'',
                 Node ''lb_global'' LoadBalancing ''Global Load Balancer'',
                 Node ''iam'' Iam ''IAM & Service Accounts'',
                 Node ''kms'' KMS ''Cloud KMS'',
                 Node ''monitoring'' BigQuery ''Cloud Monitoring'',
                 Node ''registry'' ContainerRegistry ''Artifact Registry'' ],
             ICluster ''Primary Region (us-central1)''
               [ ICluster ''VPC Network''
                   [ Node ''vpc_primary'' VPC ''VPC'',
                     ICluster ''Subnets''
                       [ Node ''web_subnet'' VPC ''Web Subnet'',
                         Node ''app_subnet'' VPC ''App Subnet'',
                         Node ''db_subnet'' VPC ''DB Subnet'',
                         Node ''gke_subnet'' VPC ''GKE Subnet'' ],
                     Node ''firewall'' FirewallRules ''Firewall Rules'',
                     ICluster ''Compute Layer''
                       [ Node ''gke_primary'' GKE ''GKE Cluster'',
                         Node ''cloud_run_primary'' Run ''Cloud Run'',
                         Node ''compute_primary'' ComputeEngine ''Compute Engine'' ],
                     ICluster ''Database Layer''
                       [ Node ''sql_primary'' SQL ''Cloud SQL\<newline>(PostgreSQL)'',
                         Node ''redis_primary'' Memorystore ''Redis Cache'' ],
                     ICluster ''Storage Layer''
                       [ Node ''storage_primary'' GCS ''Cloud Storage'',
                         Node ''filestore_primary'' Filestore ''Filestore'' ] ] ],
             ICluster ''Secondary Region (us-east1)''
               [ ICluster ''VPC Network''
                   [ Node ''vpc_secondary'' VPC ''VPC'',
                     ICluster ''Subnets''
                       [ Node ''web_subnet_2'' VPC ''Web Subnet'',
                         Node ''app_subnet_2'' VPC ''App Subnet'',
                         Node ''db_subnet_2'' VPC ''DB Subnet'',
                         Node ''gke_subnet_2'' VPC ''GKE Subnet'' ],
                     Node ''firewall_2'' FirewallRules ''Firewall Rules'',
                     ICluster ''Compute Layer''
                       [ Node ''gke_secondary'' GKE ''GKE Cluster'',
                         Node ''cloud_run_secondary'' Run ''Cloud Run'',
                         Node ''compute_secondary'' ComputeEngine ''Compute Engine'' ],
                     ICluster ''Database Layer''
                       [ Node ''sql_secondary'' SQL ''Cloud SQL\<newline>(PostgreSQL)'',
                         Node ''redis_secondary'' Memorystore ''Redis Cache'' ],
                     ICluster ''Storage Layer''
                       [ Node ''storage_secondary'' GCS ''Cloud Storage'',
                         Node ''filestore_secondary'' Filestore ''Filestore'' ] ] ],
             ICluster ''Cross-Region Connectivity''
               [ Node ''vpc_peering'' VPC ''VPC Peering'',
                 Node ''vpn_tunnel'' VPC ''VPN Tunnel'' ],
             ICluster ''Security & Compliance''
               [ Node ''vpc_sc'' VPC ''VPC Service Controls'',
                 Node ''binary_auth'' Iam ''Binary Authorization'',
                 Node ''workload_identity'' Iam ''Workload Identity'' ] ],
      dedges =
         [ plain_edge ''users'' ''internet'',
           plain_edge ''internet'' ''dns'',
           plain_edge ''dns'' ''lb_global'',
           plain_edge ''lb_global'' ''gke_primary'',
           plain_edge ''lb_global'' ''gke_secondary'',
           plain_edge ''lb_global'' ''cloud_run_primary'',
           plain_edge ''lb_global'' ''cloud_run_secondary'',
           plain_edge ''gke_primary'' ''sql_primary'',
           plain_edge ''gke_primary'' ''redis_primary'',
           plain_edge ''gke_primary'' ''storage_primary'',
           plain_edge ''cloud_run_primary'' ''sql_primary'',
           plain_edge ''cloud_run_primary'' ''redis_primary'',
           plain_edge ''compute_primary'' ''sql_primary'',
           plain_edge ''compute_primary'' ''storage_primary'',
           plain_edge ''gke_secondary'' ''sql_secondary'',
           plain_edge ''gke_secondary'' ''redis_secondary'',
           plain_edge ''gke_secondary'' ''storage_secondary'',
           plain_edge ''cloud_run_secondary'' ''sql_secondary'',
           plain_edge ''cloud_run_secondary'' ''redis_secondary'',
           plain_edge ''compute_secondary'' ''sql_secondary'',
           plain_edge ''compute_secondary'' ''storage_secondary'',
           plain_edge ''vpc_primary'' ''vpc_peering'',
           plain_edge ''vpc_secondary'' ''vpc_peering'',
           plain_edge ''vpc_primary'' ''vpn_tunnel'',
           plain_edge ''vpc_secondary'' ''vpn_tunnel'',
           plain_edge ''sql_primary'' ''sql_secondary'',
           plain_edge ''iam'' ''gke_primary'',
           plain_edge ''iam'' ''gke_secondary'',
           plain_edge ''iam'' ''cloud_run_primary'',
           plain_edge ''iam'' ''cloud_run_secondary'',
           plain_edge ''kms'' ''sql_primary'',
           plain_edge ''kms'' ''sql_secondary'',
           plain_edge ''kms'' ''storage_primary'',
           plain_edge ''kms'' ''storage_secondary'',
           plain_edge ''monitoring'' ''gke_primary'',
           plain_edge ''monitoring'' ''gke_secondary'',
           plain_edge ''monitoring'' ''sql_primary'',
           plain_edge ''monitoring'' ''sql_secondary'',
           plain_edge ''registry'' ''gke_primary'',
           plain_edge ''registry'' ''gke_secondary'',
           plain_edge ''registry'' ''cloud_run_primary'',
           plain_edge ''registry'' ''cloud_run_secondary'',
           plain_edge ''vpc_sc'' ''vpc_primary'',
           plain_edge ''vpc_sc'' ''vpc_secondary'',
           plain_edge ''binary_auth'' ''gke_primary'',
           plain_edge ''binary_auth'' ''gke_secondary'',
           plain_edge ''workload_identity'' ''gke_primary'',
           plain_edge ''workload_identity'' ''gke_secondary'' ]\<rparr>"

definition simplified_description :: diagram where
  "simplified_description =
     \<lparr>title = ''GCP Infrastructure Overview'',
      filename = ''gcp_simplified_diagram'',
      show_flag = False,
      direction = ''TB'',
      ditems =
           [ Node ''users'' Users ''Users'',
             Node ''internet'' Internet ''Internet'',
             ICluster ''Global Services''
               [ Node ''dns'' DNS ''Cloud DNS'',
                 Node ''lb'' LoadBalancing ''Global Load Balancer'',
                 Node ''iam'' Iam ''IAM & Security'',
                 Node ''monitoring'' BigQuery ''Monitoring & Logging'' ],
             ICluster ''Multi-Region Deployment''
               [ ICluster ''Primary Region\<newline>(us-central1)''
                   [ Node ''gke_primary'' GKE ''GKE Cluster'',
                     Node ''sql_primary'' SQL ''Cloud SQL'',
                     Node ''storage_primary'' GCS ''Cloud Storage'' ],
                 ICluster ''Secondary Region\<newline>(us-east1)''
                   [ Node ''gke_secondary'' GKE ''GKE Cluster'',
                     Node ''sql_secondary'' SQL ''Cloud SQL'',
                     Node ''storage_secondary'' GCS ''Cloud Storage'' ] ],
             Node ''vpc_peering'' VPC ''VPC Peering'' ],
      dedges =
         [ plain_edge ''users'' ''internet'',
           plain_edge ''internet'' ''dns'',
           plain_edge ''dns'' ''lb'',
           plain_edge ''lb'' ''gke_primary'',
           plain_edge ''lb'' ''gke_secondary'',
           plain_edge ''gke_primary'' ''sql_primary'',
           plain_edge ''gke_primary'' ''storage_primary'',
           plain_edge ''gke_secondary'' ''sql_secondary'',
           plain_edge ''gke_secondary'' ''storage_secondary'',
           plain_edge ''sql_primary'' ''sql_secondary'',
           plain_edge ''gke_primary'' ''vpc_peering'',
           plain_edge ''gke_secondary'' ''vpc_peering'',
           plain_edge ''iam'' ''gke_primary'',
           plain_edge ''iam'' ''gke_secondary'',
           plain_edge ''monitoring'' ''gke_primary'',
           plain_edge ''monitoring'' ''gke_secondary'' ]\<rparr>"

section \<open>Evaluation lemmas\<close>

lemma gcp_architecture_graph_eval: "gcp_architecture_graph = Inr gcp_architecture_description"
  by code_simp

lemma simplified_graph_eval: "simplified_graph = Inr simplified_description"
  by code_simp

lemma filename_gcp_architecture:
  "filename gcp_architecture_description = ''gcp_architecture_diagram''"
  by (simp add: gcp_architecture_description_def)

lemma filename_simplified: "filename simplified_description = ''gcp_simplified_diagram''"
  by (simp add: simplified_description_def)

subsection \<open>What a render does to the world\<close>

lemma render_requests: "requests (world_of (render eng d w)) = requests w @ [d]"
  by (simp add: render_def world_of_def split: sum.splits)

lemma render_files:
  "files (world_of (render eng d w)) =
     (case eng d of
        Inl e \<Rightarrow> (files w)(filename d \<mapsto> DotSource d)
      | Inr img \<Rightarrow> ((files w)(filename d @ ''.png'' \<mapsto> PngImage img))(filename d := None))"
  by (simp add: render_def world_of_def split: sum.splits)

lemma build_Inr: "build eng (Inr d) w = render eng d w"
  by (simp add: build_def)

lemmas main_defs = main_def py_print_def create_gcp_architecture_diagram_def
  create_simplified_architecture_diagram_def build_def render_def
  gcp_architecture_graph_eval simplified_graph_eval

section \<open>Structure of the simplified diagram\<close>

text \<open>
  Beside the two external nodes the root of the simplified diagram holds a third node,
  \<open>vpc_peering\<close> (a GCP network node, declared after the clusters): 13 nodes and 16
  edges in all.
\<close>

lemma simplified_root:
  "\<exists>d. simplified_graph = Inr d \<and>
     map node_id (top_nodes (ditems d)) = [''users'', ''internet'', ''vpc_peering''] \<and>
     map external (top_nodes (ditems d)) = [True, True, False] \<and>
     map fst (sub_clusters (ditems d)) = [''Global Services'', ''Multi-Region Deployment''] \<and>
     length (all_nodes (ditems d)) = 13 \<and>
     length (dedges d) = 16"
  unfolding simplified_graph_eval
  by (simp add: simplified_description_def all_nodes_def external_def)

text \<open>
  Claim C1. Building the simplified diagram succeeds, and in the graph it yields:
  the top-level nodes of an external (on-premises) category are exactly two, Users and
  Internet; the cluster "Global Services" has no sub-cluster and exactly four nodes, of
  categories DNS, LoadBalancing, Iam and BigQuery (labelled Cloud DNS, Global Load
  Balancer, IAM & Security, Monitoring & Logging); the cluster "Multi-Region Deployment"
  has no node of its own and exactly two sub-clusters, the primary and the secondary
  region, each without sub-clusters and with exactly three nodes, one compute, one
  database and one storage resource: six region-scoped nodes in all.
\<close>

theorem simplified_diagram_structure:
  "\<exists>d. simplified_graph = Inr d \<and>
     map node_label (filter external (top_nodes (ditems d))) = [''Users'', ''Internet''] \<and>
     map node_category (filter external (top_nodes (ditems d))) = [Users, Internet] \<and>
     (\<exists>g. cluster_named ''Global Services'' (ditems d) = Some g \<and>
          sub_clusters g = [] \<and>
          map node_category (top_nodes g) = [DNS, LoadBalancing, Iam, BigQuery] \<and>
          map node_label (top_nodes g) =
            [''Cloud DNS'', ''Global Load Balancer'', ''IAM & Security'',
             ''Monitoring & Logging''] \<and>
          length (all_nodes g) = 4) \<and>
     (\<exists>m p s. cluster_named ''Multi-Region Deployment'' (ditems d) = Some m \<and>
          top_nodes m = [] \<and>
          sub_clusters m =
            [(''Primary Region\<newline>(us-central1)'', p),
             (''Secondary Region\<newline>(us-east1)'', s)] \<and>
          sub_clusters p = [] \<and> sub_clusters s = [] \<and>
          map (resource_type_of \<circ> node_category) (top_nodes p) = [Compute, Database, Storage] \<and>
          map (resource_type_of \<circ> node_category) (top_nodes s) = [Compute, Database, Storage] \<and>
          length (all_nodes m) = 6)"
  unfolding simplified_graph_eval
  by (simp add: simplified_description_def cluster_named_def all_nodes_def external_def)

section \<open>Symmetry of the two regions\<close>

text \<open>
  Claim C2. In the comprehensive diagram the primary-region cluster and the
  secondary-region cluster are structurally symmetric. With the identifiers dropped the
  two clusters have the same content: the same tree of sub-clusters and, sub-cluster by
  sub-cluster, the same node categories (in the same order, with the same display labels
  even). Each has 13 nodes and 7 edges inside it; the shapes of those edges (the
  categories of the two ends) are the same, edge by edge; and renaming the k-th node of
  the primary region to the k-th node of the secondary one turns the primary region's
  inner edges into the secondary region's. Only the identifiers and the labels of the two
  region clusters themselves differ.
\<close>

theorem regions_symmetric:
  "\<exists>d p s. gcp_architecture_graph = Inr d \<and>
     cluster_named ''Primary Region (us-central1)'' (ditems d) = Some p \<and>
     cluster_named ''Secondary Region (us-east1)'' (ditems d) = Some s \<and>
     map anonymous p = map anonymous s \<and>
     length (all_nodes p) = 13 \<and>
     length (intra_edges p (dedges d)) = 7 \<and>
     map (edge_shape p) (intra_edges p (dedges d)) =
       map (edge_shape s) (intra_edges s (dedges d)) \<and>
     map (\<lambda>e. (renaming p s (src e), renaming p s (dst e))) (intra_edges p (dedges d)) =
       map (\<lambda>e. (Some (src e), Some (dst e))) (intra_edges s (dedges d))"
  apply (intro exI conjI)
         apply (rule gcp_architecture_graph_eval)
        apply (simp add: cluster_named_def gcp_architecture_description_def)
       apply (simp add: cluster_named_def gcp_architecture_description_def)
      apply code_simp
     apply code_simp
    apply code_simp
   apply code_simp
  apply code_simp
  done

section \<open>Size of the comprehensive diagram\<close>

text \<open>
  Claim C3. The comprehensive build takes no input. Its graph has 39 nodes: 2 at the
  root, 6 in the global cluster, 13 in each of the two region clusters (whose contents
  are equal once the identifiers are dropped), 2 in the cross-region cluster and 3 in
  the security cluster. It has 48 edges. The build hands exactly this graph to the
  renderer, whatever the world it starts in. The image path is fixed: after the build
  \<open>gcp_architecture_diagram.png\<close> holds the renderer's image of the graph when the
  render succeeded, and what it held before when the render failed.
\<close>

theorem comprehensive_diagram_size:
  "\<exists>d p s. gcp_architecture_graph = Inr d \<and>
     length (all_nodes (ditems d)) = 39 \<and>
     length (top_nodes (ditems d)) = 2 \<and>
     map (\<lambda>(l, its). (l, length (all_nodes its))) (sub_clusters (ditems d)) =
       [(''Global Resources'', 6), (''Primary Region (us-central1)'', 13),
        (''Secondary Region (us-east1)'', 13), (''Cross-Region Connectivity'', 2),
        (''Security & Compliance'', 3)] \<and>
     cluster_named ''Primary Region (us-central1)'' (ditems d) = Some p \<and>
     cluster_named ''Secondary Region (us-east1)'' (ditems d) = Some s \<and>
     map anonymous p = map anonymous s \<and>
     length (dedges d) = 48 \<and>
     filename d = ''gcp_architecture_diagram'' \<and>
     (\<forall>(eng :: 'img engine) w.
        requests (world_of (create_gcp_architecture_diagram eng w)) = requests w @ [d] \<and>
        files (world_of (create_gcp_architecture_diagram eng w))
            ''gcp_architecture_diagram.png'' =
          (case eng d of Inl e \<Rightarrow> files w ''gcp_architecture_diagram.png''
           | Inr img \<Rightarrow> Some (PngImage img)))"
  apply (intro exI conjI)
           apply (rule gcp_architecture_graph_eval)
          apply code_simp
         apply code_simp
        apply code_simp
       apply (simp add: cluster_named_def gcp_architecture_description_def)
      apply (simp add: cluster_named_def gcp_architecture_description_def)
     apply code_simp
    apply code_simp
   apply code_simp
  apply (simp add: create_gcp_architecture_diagram_def gcp_architecture_graph_eval build_Inr
      render_requests render_files filename_gcp_architecture split: sum.splits)
  done

section \<open>Referential integrity and unique identifiers\<close>

text \<open>
  Claim C4. In each of the two diagrams the build succeeds and, for every declared edge,
  the source identifier and the destination identifier are both among the identifiers
  of the nodes declared in that diagram.
\<close>

theorem edges_reference_declared_nodes:
  "(\<exists>d. gcp_architecture_graph = Inr d \<and>
        list_all (\<lambda>e. src e \<in> set (node_ids d) \<and> dst e \<in> set (node_ids d)) (dedges d)) \<and>
   (\<exists>d. simplified_graph = Inr d \<and>
        list_all (\<lambda>e. src e \<in> set (node_ids d) \<and> dst e \<in> set (node_ids d)) (dedges d))"
  apply (intro exI conjI)
     apply (rule gcp_architecture_graph_eval)
    apply code_simp
   apply (rule simplified_graph_eval)
  apply code_simp
  done

text \<open>
  Claim C5. Within each diagram no two declared nodes share an identifier: the list of
  node identifiers of the comprehensive diagram has no repetition, and neither has the
  list of the simplified diagram.
\<close>

theorem node_identifiers_unique:
  "(\<exists>d. gcp_architecture_graph = Inr d \<and> distinct (node_ids d)) \<and>
   (\<exists>d. simplified_graph = Inr d \<and> distinct (node_ids d))"
  apply (intro exI conjI)
     apply (rule gcp_architecture_graph_eval)
    apply code_simp
   apply (rule simplified_graph_eval)
  apply code_simp
  done

section \<open>The script\<close>

text \<open>
  Claim C8. When a run of the script returns, the renderer has succeeded on both graphs
  and the files on disk are those of before with exactly two written:
  \<open>gcp_architecture_diagram.png\<close>, the image of the comprehensive graph, and
  \<open>gcp_simplified_diagram.png\<close>, the image of the simplified graph. Nothing else is
  persisted: the two DOT source files \<open>gcp_architecture_diagram\<close> and
  \<open>gcp_simplified_diagram\<close>, which each build writes for the layout engine, are gone
  when the run returns (and so is any file that bore one of these two names before the
  run); every other file is as it was. The run has also made the two render requests
  and printed ten lines.
\<close>

theorem main_writes_two_files:
  assumes "main eng w = Inr w'"
  shows "\<exists>d1 d2 i1 i2. gcp_architecture_graph = Inr d1 \<and> simplified_graph = Inr d2 \<and>
     eng d1 = Inr i1 \<and> eng d2 = Inr i2 \<and>
     files w' = (files w)(''gcp_architecture_diagram.png'' \<mapsto> PngImage i1,
                          ''gcp_architecture_diagram'' := None,
                          ''gcp_simplified_diagram.png'' \<mapsto> PngImage i2,
                          ''gcp_simplified_diagram'' := None) \<and>
     requests w' = requests w @ [d1, d2] \<and>
     length (stdout w') = length (stdout w) + 10"
  using assms
  by (auto simp: main_defs filename_gcp_architecture filename_simplified split: sum.splits)

text \<open>
  A run with a renderer that returns the diagram's title as its image, in a directory
  that holds one file, left under the name of the first DOT source.
\<close>

theorem main_writes_two_files_witness:
  "\<exists>w'. main (\<lambda>d. Inr (title d))
          \<lparr>stdout = [], files = [''gcp_architecture_diagram'' \<mapsto> PngImage ''old''],
           requests = []\<rparr> = Inr w' \<and>
     files w' =
       [''gcp_architecture_diagram.png'' \<mapsto> PngImage ''Terraform GCP Multi-Region Infrastructure'',
        ''gcp_simplified_diagram.png'' \<mapsto> PngImage ''GCP Infrastructure Overview'']"
proof -
  let ?eng = "\<lambda>d. Inr (title d) :: error + string"
  let ?w = "\<lparr>stdout = [], files = [''gcp_architecture_diagram'' \<mapsto> PngImage ''old''],
             requests = []\<rparr> :: string world"
  have m: "main ?eng ?w = Inr (world_of (main ?eng ?w))"
    by (simp add: main_defs world_of_def)
  have t1: "title gcp_architecture_description = ''Terraform GCP Multi-Region Infrastructure''"
    by (simp add: gcp_architecture_description_def)
  have t2: "title simplified_description = ''GCP Infrastructure Overview''"
    by (simp add: simplified_description_def)
  from main_writes_two_files [OF m] show ?thesis
    using m by (auto simp: gcp_architecture_graph_eval simplified_graph_eval t1 t2 fun_eq_iff)
qed



section \<open>Edges and diagram options\<close>

text \<open>
  Claim C10. Every edge of the two diagrams is a plain directed connector: it has no
  label and no style. Both diagrams are built with \<open>show=False\<close> and with the layout
  direction \<open>TB\<close>.
\<close>

theorem edges_plain_and_options_fixed:
  "\<exists>d1 d2. gcp_architecture_graph = Inr d1 \<and> simplified_graph = Inr d2 \<and>
     list_all (\<lambda>e. edge_label e = None \<and> edge_style e = None) (dedges d1) \<and>
     list_all (\<lambda>e. edge_label e = None \<and> edge_style e = None) (dedges d2) \<and>
     show_flag d1 = False \<and> show_flag d2 = False \<and>
     direction d1 = ''TB'' \<and> direction d2 = ''TB''"
  apply (intro exI conjI)
         apply (rule gcp_architecture_graph_eval)
        apply (rule simplified_graph_eval)
       apply code_simp
      apply code_simp
     apply code_simp
    apply code_simp
   apply code_simp
  apply code_simp
  done

end
